theory Spec2Isabelle
  imports Main
begin

section \<open>Go values, dynamic types and formatting\<close>

text \<open>
  The package stores values of a type parameter \<open>V\<close> in a \<open>context.Context\<close>, whose
  keys and values have the interface type \<open>any\<close>.  An interface value is either the nil
  interface or a value together with its dynamic type.  The universe below holds the nil
  interface, the basic types \<open>bool\<close>, \<open>int\<close> and \<open>string\<close>, and pointers to the
  package's \<open>opaque\<close> struct (the identity tokens).  A Go \<open>int\<close> is modelled by its
  mathematical value: the package only stores and returns values, it never computes
  with them.
\<close>

type_synonym addr = nat

datatype any = VNil | VBool bool | VInt int | VString string | VOpaque addr

text \<open>
  A type argument for \<open>V\<close> is a descriptor of the run-time behaviour the generic code
  relies on: the name \<open>reflect\<close> reports, the zero value, the conversion of a \<open>V\<close> to
  an interface value (what \<open>context.WithValue\<close> receives), the comma-ok type assertion
  \<open>x.(V)\<close>, and the \<open>%v\<close> verb of \<open>fmt\<close>.
\<close>

record 'v gotype =
  type_name :: string
  zero_value :: 'v
  box :: "'v \<Rightarrow> any"
  unbox :: "any \<Rightarrow> 'v option"
  format_v :: "'v \<Rightarrow> string"

fun digits10 :: "nat \<Rightarrow> string" where
  "digits10 n = (if n < 10 then [''0123456789'' ! n]
                 else digits10 (n div 10) @ [''0123456789'' ! (n mod 10)])"

fun digits16 :: "nat \<Rightarrow> string" where
  "digits16 n = (if n < 16 then [''0123456789abcdef'' ! n]
                 else digits16 (n div 16) @ [''0123456789abcdef'' ! (n mod 16)])"

declare digits10.simps [simp del]
declare digits16.simps [simp del]

text \<open>The verbs \<open>%d\<close> (on an \<open>int\<close>) and \<open>%p\<close> (on a pointer) of \<open>fmt\<close>.\<close>

definition fmt_d :: "int \<Rightarrow> string" where
  "fmt_d i = (if i < 0 then ''-'' @ digits10 (nat (- i)) else digits10 (nat i))"

definition fmt_p :: "addr \<Rightarrow> string" where
  "fmt_p a = ''0x'' @ digits16 a"

definition fmt_bool :: "bool \<Rightarrow> string" where
  "fmt_bool b = (if b then ''true'' else ''false'')"

text \<open>
  The verb \<open>%v\<close> on an interface value prints the dynamic value; the nil interface
  prints as \<open><nil>\<close> and a pointer to the one-byte struct \<open>opaque\<close> as \<open>&{0}\<close>.
\<close>

fun fmt_any :: "any \<Rightarrow> string" where
  "fmt_any VNil = ''<nil>''"
| "fmt_any (VBool b) = fmt_bool b"
| "fmt_any (VInt i) = fmt_d i"
| "fmt_any (VString s) = s"
| "fmt_any (VOpaque a) = ''&{0}''"

text \<open>
  The type arguments used in this development.  For a non-interface type the assertion
  \<open>x.(V)\<close> succeeds exactly when the dynamic type of \<open>x\<close> is \<open>V\<close>.  For the interface
  type \<open>any\<close> it succeeds exactly when \<open>x\<close> is not the nil interface: a nil interface
  value has no dynamic type, so every type assertion on it fails.
\<close>

definition go_bool :: "bool gotype" where
  "go_bool = \<lparr>type_name = ''bool'', zero_value = False, box = VBool,
     unbox = (\<lambda>x. case x of VBool b \<Rightarrow> Some b | _ \<Rightarrow> None),
     format_v = fmt_bool\<rparr>"

definition go_int :: "int gotype" where
  "go_int = \<lparr>type_name = ''int'', zero_value = 0, box = VInt,
     unbox = (\<lambda>x. case x of VInt i \<Rightarrow> Some i | _ \<Rightarrow> None),
     format_v = fmt_d\<rparr>"

definition go_string :: "string gotype" where
  "go_string = \<lparr>type_name = ''string'', zero_value = [], box = VString,
     unbox = (\<lambda>x. case x of VString s \<Rightarrow> Some s | _ \<Rightarrow> None),
     format_v = (\<lambda>s. s)\<rparr>"

definition go_any :: "any gotype" where
  "go_any = \<lparr>type_name = ''interface {}'', zero_value = VNil, box = (\<lambda>x. x),
     unbox = (\<lambda>x. case x of VNil \<Rightarrow> None | _ \<Rightarrow> Some x),
     format_v = fmt_any\<rparr>"

text \<open>
  Two properties of a type argument.  Every Go type satisfies the first: a type
  assertion fails on the nil interface, and a successful one yields the very value that
  is stored.  The second singles out the types none of whose values converts to the nil
  interface, that is, the non-interface types.
\<close>

definition assertion_sound :: "'v gotype \<Rightarrow> bool" where
  "assertion_sound V \<longleftrightarrow>
     unbox V VNil = None \<and> (\<forall>x v. unbox V x = Some v \<longrightarrow> box V v = x)"

definition non_interface :: "'v gotype \<Rightarrow> bool" where
  "non_interface V \<longleftrightarrow> (\<forall>v. unbox V (box V v) = Some v)"

text \<open>The comma-ok form \<open>val, ok := x.(V)\<close>: on failure \<open>val\<close> is the zero value.\<close>

definition type_assert :: "'v gotype \<Rightarrow> any \<Rightarrow> 'v \<times> bool" where
  "type_assert V x = (case unbox V x of Some v \<Rightarrow> (v, True) | None \<Rightarrow> (zero_value V, False))"

section \<open>The host scope: \<open>context.Context\<close>\<close>

text \<open>
  Modelled from the spec: the host scope collaborator (section 6 of the specification;
  in the source it is Go's standard \<open>context\<close> package, which is not part of the
  repository).  A scope is the empty background scope or a \<open>valueCtx\<close> node holding its
  parent, one key and one value; \<open>Value\<close> walks the chain from the newest binding and
  returns the nil interface when no node has the key.  \<open>context.WithValue\<close> panics on a
  nil key and otherwise allocates a new node over the parent, which it does not write to.
\<close>

datatype ctx = Background | valueCtx ctx any any

fun ctx_Value :: "ctx \<Rightarrow> any \<Rightarrow> any" where
  "ctx_Value Background key = VNil"
| "ctx_Value (valueCtx parent k v) key = (if k = key then v else ctx_Value parent key)"

text \<open>
  A panic carries a value: the string given to \<open>panic\<close>, or a run-time error such as
  the one a failed single-value type assertion raises.
\<close>

datatype panic = PanicString string | TypeAssertionError

definition context_WithValue :: "ctx \<Rightarrow> any \<Rightarrow> any \<Rightarrow> panic + ctx" where
  "context_WithValue parent key val =
     (if key = VNil then Inl (PanicString ''nil key'') else Inr (valueCtx parent key val))"

section \<open>Identity tokens\<close>

text \<open>
  \<open>new(T)\<close> returns the address of a fresh variable.  For a type of size zero the Go
  run time hands out one shared address; for any other size the address differs from
  that of every object allocated before.  The heap is the allocation frontier: every
  address handed out so far lies below \<open>brk\<close>.  The struct \<open>opaque\<close> has one byte-sized
  field, put there so that its size is not zero.
\<close>

record heap =
  brk :: addr

definition zerobase :: addr where
  "zerobase = 0"

definition runtime_new :: "heap \<Rightarrow> nat \<Rightarrow> addr \<times> heap" where
  "runtime_new h sz =
     (if sz = 0 then (zerobase, h) else (brk h, h\<lparr>brk := brk h + sz\<rparr>))"

definition sizeof_opaque :: nat where
  "sizeof_opaque = 1"

section \<open>Options and the naming resolver\<close>

record options =
  name :: string
  depth :: int

type_synonym Option = "options \<Rightarrow> options"

definition WithName :: "string \<Rightarrow> Option" where
  "WithName n = (\<lambda>opt. opt\<lparr>name := n\<rparr>)"

definition appendCallerDepthIncr :: "Option list \<Rightarrow> Option list" where
  "appendCallerDepthIncr opts = opts @ [\<lambda>opt. opt\<lparr>depth := depth opt + 1\<rparr>]"

definition defaultOptions :: options where
  "defaultOptions = \<lparr>name = [], depth = 0\<rparr>"

definition optionsFrom :: "Option list \<Rightarrow> options" where
  "optionsFrom opts = foldl (\<lambda>opt optFn. optFn opt) defaultOptions opts"

text \<open>
  The call stack is the list of the call sites of the active calls, innermost first.
  \<open>runtime.Caller(skip)\<close> is called with its own call site on top, so that \<open>skip = 0\<close>
  names the line of the call to \<open>runtime.Caller\<close>; it reports failure when the stack has
  no such frame.
\<close>

record frame =
  "file" :: string
  line :: nat

type_synonym stack = "frame list"

definition runtime_Caller :: "stack \<Rightarrow> int \<Rightarrow> frame option" where
  "runtime_Caller st skip =
     (if 0 \<le> skip \<and> nat skip < length st then Some (st ! nat skip) else None)"

text \<open>A call site inside \<open>feature.go\<close>.\<close>

definition feature_go :: "nat \<Rightarrow> frame" where
  "feature_go l = \<lparr>file = ''feature.go'', line = l\<rparr>"

definition computeKeyName :: "stack \<Rightarrow> addr \<Rightarrow> string \<Rightarrow> int \<Rightarrow> string" where
  "computeKeyName st idt nm dp =
     (if nm = [] then
        (case runtime_Caller (feature_go 196 # st) (1 + dp) of
           Some f \<Rightarrow> ''anonymous('' @ file f @ '':'' @ fmt_d (int (line f)) @ '')@'' @ fmt_p idt
         | None \<Rightarrow> ''anonymous@'' @ fmt_p idt)
      else nm)"

section \<open>Keys and their constructors\<close>

text \<open>
  \<open>key[V]\<close> holds the resolved name and the identity token.  The type parameter has no
  field of its own: a method of \<open>key[V]\<close> takes the type argument as its first
  parameter.  Every constructor takes the heap and the call stack at its call site (the
  head of the stack is the place of the call) and returns the heap after the allocation.
\<close>

record key =
  name :: string
  ident :: addr

record boolKey =
  key :: key

definition New :: "heap \<Rightarrow> stack \<Rightarrow> Option list \<Rightarrow> key \<times> heap" where
  "New h st optionsl =
     (let optionsl = appendCallerDepthIncr optionsl;
          opts = optionsFrom optionsl;
          (idt, h') = runtime_new h sizeof_opaque
      in (\<lparr>name = computeKeyName (feature_go 255 # st) idt (options.name opts) (depth opts),
           ident = idt\<rparr>, h'))"

definition NewBool :: "heap \<Rightarrow> stack \<Rightarrow> Option list \<Rightarrow> boolKey \<times> heap" where
  "NewBool h st optionsl =
     (let optionsl = appendCallerDepthIncr optionsl;
          (k, h') = New h (feature_go 221 # st) optionsl
      in (\<lparr>key = k\<rparr>, h'))"

definition NewNamedBool :: "heap \<Rightarrow> stack \<Rightarrow> string \<Rightarrow> Option list \<Rightarrow> boolKey \<times> heap" where
  "NewNamedBool h st nm optionsl =
     (let optionsl = appendCallerDepthIncr optionsl
      in NewBool h (feature_go 236 # st) (WithName nm # optionsl))"

definition NewNamed :: "heap \<Rightarrow> stack \<Rightarrow> string \<Rightarrow> Option list \<Rightarrow> key \<times> heap" where
  "NewNamed h st nm optionsl =
     (let optionsl = appendCallerDepthIncr optionsl
      in New h (feature_go 272 # st) (WithName nm # optionsl))"

definition key_String :: "key \<Rightarrow> string" where
  "key_String k = name k"

section \<open>Inspections\<close>

record 'v Inspection =
  Key :: key
  Value :: 'v
  Ok :: bool

definition Inspection_Get :: "'v Inspection \<Rightarrow> 'v" where
  "Inspection_Get i = Value i"

definition Inspection_TryGet :: "'v Inspection \<Rightarrow> 'v \<times> bool" where
  "Inspection_TryGet i = (Value i, Ok i)"

definition Inspection_GetOrDefault :: "'v Inspection \<Rightarrow> 'v \<Rightarrow> 'v" where
  "Inspection_GetOrDefault i defaultValue = (if Ok i then Value i else defaultValue)"

definition Inspection_MustGet :: "'v Inspection \<Rightarrow> panic + 'v" where
  "Inspection_MustGet i =
     (if \<not> Ok i then Inl (PanicString (''key '' @ key_String (Key i) @ '' is not set in context''))
      else Inr (Value i))"

definition Inspection_IsSet :: "'v Inspection \<Rightarrow> bool" where
  "Inspection_IsSet i = Ok i"

definition Inspection_IsNotSet :: "'v Inspection \<Rightarrow> bool" where
  "Inspection_IsNotSet i = (\<not> Ok i)"

definition Inspection_String :: "'v gotype \<Rightarrow> 'v Inspection \<Rightarrow> string" where
  "Inspection_String V i =
     (if \<not> Ok i then key_String (Key i) @ '': <not set>''
      else key_String (Key i) @ '': '' @ format_v V (Value i))"

record BoolInspection =
  Inspection :: "bool Inspection"

definition BoolInspection_Enabled :: "BoolInspection \<Rightarrow> bool" where
  "BoolInspection_Enabled i = Value (Inspection i)"

definition BoolInspection_Disabled :: "BoolInspection \<Rightarrow> bool" where
  "BoolInspection_Disabled i = (\<not> BoolInspection_Enabled i)"

definition BoolInspection_ExplicitlyDisabled :: "BoolInspection \<Rightarrow> bool" where
  "BoolInspection_ExplicitlyDisabled i = (Ok (Inspection i) \<and> \<not> Value (Inspection i))"

definition BoolInspection_String :: "BoolInspection \<Rightarrow> string" where
  "BoolInspection_String i = Inspection_String go_bool (Inspection i)"

section \<open>Operations of a key\<close>

definition TryGet :: "'v gotype \<Rightarrow> key \<Rightarrow> ctx \<Rightarrow> 'v \<times> bool" where
  "TryGet V k c = type_assert V (ctx_Value c (VOpaque (ident k)))"

definition Inspect :: "'v gotype \<Rightarrow> key \<Rightarrow> ctx \<Rightarrow> 'v Inspection" where
  "Inspect V k c = (let (val, ok) = TryGet V k c in \<lparr>Key = k, Value = val, Ok = ok\<rparr>)"

definition WithValue :: "'v gotype \<Rightarrow> key \<Rightarrow> ctx \<Rightarrow> 'v \<Rightarrow> panic + ctx" where
  "WithValue V k c v = context_WithValue c (VOpaque (ident k)) (box V v)"

definition Get :: "'v gotype \<Rightarrow> key \<Rightarrow> ctx \<Rightarrow> 'v" where
  "Get V k c = Inspection_Get (Inspect V k c)"

definition GetOrDefault :: "'v gotype \<Rightarrow> key \<Rightarrow> ctx \<Rightarrow> 'v \<Rightarrow> 'v" where
  "GetOrDefault V k c defaultValue = Inspection_GetOrDefault (Inspect V k c) defaultValue"

definition MustGet :: "'v gotype \<Rightarrow> key \<Rightarrow> ctx \<Rightarrow> panic + 'v" where
  "MustGet V k c = Inspection_MustGet (Inspect V k c)"

definition IsSet :: "'v gotype \<Rightarrow> key \<Rightarrow> ctx \<Rightarrow> bool" where
  "IsSet V k c = Inspection_IsSet (Inspect V k c)"

definition IsNotSet :: "'v gotype \<Rightarrow> key \<Rightarrow> ctx \<Rightarrow> bool" where
  "IsNotSet V k c = Inspection_IsNotSet (Inspect V k c)"

text \<open>
  \<open>DebugValue\<close> is the rendering of the version of \<open>feature.go\<close> that has no
  inspections; it looks the key up itself.
\<close>

definition DebugValue :: "'v gotype \<Rightarrow> key \<Rightarrow> ctx \<Rightarrow> string" where
  "DebugValue V k c =
     (let keyName = key_String k; (val, ok) = TryGet V k c
      in if \<not> ok then keyName @ '': <not set>'' else keyName @ '': '' @ format_v V val)"

definition InspectBool :: "boolKey \<Rightarrow> ctx \<Rightarrow> BoolInspection" where
  "InspectBool b c = \<lparr>Inspection = Inspect go_bool (key b) c\<rparr>"

definition Enabled :: "boolKey \<Rightarrow> ctx \<Rightarrow> bool" where
  "Enabled b c = BoolInspection_Enabled (InspectBool b c)"

definition Disabled :: "boolKey \<Rightarrow> ctx \<Rightarrow> bool" where
  "Disabled b c = BoolInspection_Disabled (InspectBool b c)"

definition ExplicitlyDisabled :: "boolKey \<Rightarrow> ctx \<Rightarrow> bool" where
  "ExplicitlyDisabled b c = BoolInspection_ExplicitlyDisabled (InspectBool b c)"

definition WithEnabled :: "boolKey \<Rightarrow> ctx \<Rightarrow> panic + ctx" where
  "WithEnabled b c = WithValue go_bool (key b) c True"

definition WithDisabled :: "boolKey \<Rightarrow> ctx \<Rightarrow> panic + ctx" where
  "WithDisabled b c = WithValue go_bool (key b) c False"

section \<open>Syntax representation\<close>

text \<open>
  \<open>GoString\<close> (in \<open>gostring.go\<close>, the form the tests of the repository expect) prints a
  call of a constructor.  \<open>reflect\<close> supplies the name of the type argument, and the verb
  \<open>%q\<close> of \<open>fmt\<close> prints the name as a Go string literal.  The quoting function is a
  parameter \<open>q\<close> of the model; \<open>strconv_Quote\<close> below is what \<open>%q\<close> prints for a
  string of ASCII bytes.
\<close>

definition key_GoString :: "(string \<Rightarrow> string) \<Rightarrow> 'v gotype \<Rightarrow> key \<Rightarrow> string" where
  "key_GoString q V k =
     (let typeName = type_name V
      in ''feature.New['' @ typeName @ ''](feature.WithName('' @ q (name k) @ ''))'')"

definition boolKey_GoString :: "(string \<Rightarrow> string) \<Rightarrow> boolKey \<Rightarrow> string" where
  "boolKey_GoString q b = ''feature.NewBool(feature.WithName('' @ q (name (key b)) @ ''))''"

text \<open>
  Quoting of one ASCII byte as \<open>strconv.Quote\<close> does it: the double quote and the
  backslash get a backslash, the control characters with a short escape use it, the
  other bytes below the space and the byte 127 are written \<open>\xNN\<close>, and a printable
  byte stands for itself.
\<close>

definition hex2 :: "nat \<Rightarrow> string" where
  "hex2 n = [''0123456789abcdef'' ! (n div 16 mod 16), ''0123456789abcdef'' ! (n mod 16)]"

definition quote_byte :: "char \<Rightarrow> string" where
  "quote_byte c =
     (if c = CHR 0x22 then [CHR 0x5C, CHR 0x22]
      else if c = CHR 0x5C then [CHR 0x5C, CHR 0x5C]
      else if c = CHR 0x07 then [CHR 0x5C, CHR ''a'']
      else if c = CHR 0x08 then [CHR 0x5C, CHR ''b'']
      else if c = CHR 0x0C then [CHR 0x5C, CHR ''f'']
      else if c = CHR 0x0A then [CHR 0x5C, CHR ''n'']
      else if c = CHR 0x0D then [CHR 0x5C, CHR ''r'']
      else if c = CHR 0x09 then [CHR 0x5C, CHR ''t'']
      else if c = CHR 0x0B then [CHR 0x5C, CHR ''v'']
      else if (of_char c :: nat) < 32 \<or> (of_char c :: nat) \<ge> 127
        then [CHR 0x5C, CHR ''x''] @ hex2 (of_char c)
      else [c])"

definition strconv_Quote :: "string \<Rightarrow> string" where
  "strconv_Quote s = [CHR 0x22] @ concat (map quote_byte s) @ [CHR 0x22]"

text \<open>
  The value of an interpreted Go string literal, for the escapes above: the text between
  the double quotes, with every escape sequence replaced by the byte it stands for.
\<close>

definition hexval :: "char \<Rightarrow> nat option" where
  "hexval c =
     (let n = (of_char c :: nat)
      in if 48 \<le> n \<and> n \<le> 57 then Some (n - 48)
         else if 97 \<le> n \<and> n \<le> 102 then Some (n - 87)
         else if 65 \<le> n \<and> n \<le> 70 then Some (n - 55)
         else None)"

definition simple_escape :: "char \<Rightarrow> char option" where
  "simple_escape e =
     (if e = CHR 0x22 then Some (CHR 0x22)
      else if e = CHR 0x5C then Some (CHR 0x5C)
      else if e = CHR ''a'' then Some (CHR 0x07)
      else if e = CHR ''b'' then Some (CHR 0x08)
      else if e = CHR ''f'' then Some (CHR 0x0C)
      else if e = CHR ''n'' then Some (CHR 0x0A)
      else if e = CHR ''r'' then Some (CHR 0x0D)
      else if e = CHR ''t'' then Some (CHR 0x09)
      else if e = CHR ''v'' then Some (CHR 0x0B)
      else None)"

fun unescape :: "string \<Rightarrow> string option" where
  "unescape [] = Some []"
| "unescape [c] = (if c = CHR 0x5C \<or> c = CHR 0x22 then None else Some [c])"
| "unescape (c # e # r) =
     (if c = CHR 0x22 then None
      else if c \<noteq> CHR 0x5C then map_option ((#) c) (unescape (e # r))
      else if e = CHR ''x'' then
        (case r of
           h1 # h2 # r' \<Rightarrow>
             (case (hexval h1, hexval h2) of
                (Some a, Some b) \<Rightarrow> map_option ((#) (char_of (16 * a + b))) (unescape r')
              | _ \<Rightarrow> None)
         | _ \<Rightarrow> None)
      else (case simple_escape e of
              Some d \<Rightarrow> map_option ((#) d) (unescape r)
            | None \<Rightarrow> None))"

definition strconv_Unquote :: "string \<Rightarrow> string option" where
  "strconv_Unquote s =
     (case s of
        [] \<Rightarrow> None
      | c # r \<Rightarrow> if c = CHR 0x22 \<and> r \<noteq> [] \<and> last r = CHR 0x22 then unescape (butlast r) else None)"

text \<open>
  Evaluating the printed expression: the text is read back as a call of \<open>New\<close> with a
  type argument or of \<open>NewBool\<close>, each with the one option \<open>WithName\<close> of a string
  literal, and the call is run on the current heap at the call site of the evaluation.
  The function \<open>uq\<close> gives the value of a string literal.
\<close>

fun strip_prefix :: "string \<Rightarrow> string \<Rightarrow> string option" where
  "strip_prefix [] s = Some s"
| "strip_prefix (p # ps) [] = None"
| "strip_prefix (p # ps) (c # cs) = (if p = c then strip_prefix ps cs else None)"

definition strip_suffix :: "string \<Rightarrow> string \<Rightarrow> string option" where
  "strip_suffix p s = map_option rev (strip_prefix (rev p) (rev s))"

datatype expr = ENew string string | ENewBool string

definition go_type_names :: "string list" where
  "go_type_names = [''bool'', ''int'', ''string'', ''interface {}'']"

fun parse_type_arg :: "string list \<Rightarrow> string \<Rightarrow> (string \<times> string) option" where
  "parse_type_arg [] s = None"
| "parse_type_arg (tn # tns) s =
     (case strip_prefix (tn @ ''](feature.WithName('') s of
        Some r \<Rightarrow> Some (tn, r)
      | None \<Rightarrow> parse_type_arg tns s)"

definition parse_expr :: "(string \<Rightarrow> string option) \<Rightarrow> string \<Rightarrow> expr option" where
  "parse_expr uq text =
     (case strip_prefix ''feature.NewBool(feature.WithName('' text of
        Some r \<Rightarrow>
          (case strip_suffix ''))'' r of
             Some lit \<Rightarrow> map_option ENewBool (uq lit)
           | None \<Rightarrow> None)
      | None \<Rightarrow>
          (case strip_prefix ''feature.New['' text of
             Some r \<Rightarrow>
               (case parse_type_arg go_type_names r of
                  Some (tn, r') \<Rightarrow>
                    (case strip_suffix ''))'' r' of
                       Some lit \<Rightarrow> map_option (ENew tn) (uq lit)
                     | None \<Rightarrow> None)
                | None \<Rightarrow> None)
           | None \<Rightarrow> None))"

fun eval_expr :: "heap \<Rightarrow> stack \<Rightarrow> expr \<Rightarrow> string \<times> key \<times> heap" where
  "eval_expr h st (ENew tn nm) = (let (k, h') = New h st [WithName nm] in (tn, k, h'))"
| "eval_expr h st (ENewBool nm) =
     (let (b, h') = NewBool h st [WithName nm] in (''bool'', key b, h'))"

definition eval_GoString ::
  "(string \<Rightarrow> string option) \<Rightarrow> heap \<Rightarrow> stack \<Rightarrow> string \<Rightarrow> (string \<times> key \<times> heap) option" where
  "eval_GoString uq h st text = map_option (eval_expr h st) (parse_expr uq text)"

section \<open>Bindings of a scope and constructed keys\<close>

text \<open>A scope binds a key when one of its nodes was made with that key.\<close>

fun ctx_binds :: "ctx \<Rightarrow> any \<Rightarrow> bool" where
  "ctx_binds Background t = False"
| "ctx_binds (valueCtx parent k v) t = (k = t \<or> ctx_binds parent t)"

text \<open>
  \<open>constructs h k h'\<close>: one call of an exported constructor, made on the heap \<open>h\<close>,
  returned the key \<open>k\<close> and left the heap \<open>h'\<close>.
\<close>

inductive constructs :: "heap \<Rightarrow> key \<Rightarrow> heap \<Rightarrow> bool" where
  by_New: "New h st optionsl = (k, h') \<Longrightarrow> constructs h k h'"
| by_NewBool: "NewBool h st optionsl = (b, h') \<Longrightarrow> constructs h (key b) h'"
| by_NewNamed: "NewNamed h st nm optionsl = (k, h') \<Longrightarrow> constructs h k h'"
| by_NewNamedBool: "NewNamedBool h st nm optionsl = (b, h') \<Longrightarrow> constructs h (key b) h'"

text \<open>
  The display name the specification asks for: the explicit name when it is not empty,
  otherwise the fallback built from the user's call site (the head of the user's call
  stack) and the token, or from the token alone when the stack gives no call site.
\<close>

definition spec_display_name :: "string \<Rightarrow> stack \<Rightarrow> addr \<Rightarrow> string" where
  "spec_display_name explicit st idt =
     (if explicit \<noteq> [] then explicit
      else (case st of
              [] \<Rightarrow> ''anonymous@'' @ fmt_p idt
            | u # _ \<Rightarrow> ''anonymous('' @ file u @ '':'' @ fmt_d (int (line u)) @ '')@'' @ fmt_p idt))"

text \<open>The name that a list of \<open>WithName\<close> options leaves: the last one wins.\<close>

definition explicit_name :: "string list \<Rightarrow> string" where
  "explicit_name ns = (if ns = [] then [] else last ns)"

section \<open>Basic facts\<close>

lemma go_bool_sound: "assertion_sound go_bool"
  by (auto simp: assertion_sound_def go_bool_def split: any.splits)
lemma go_int_sound: "assertion_sound go_int"
  by (auto simp: assertion_sound_def go_int_def split: any.splits)
lemma go_string_sound: "assertion_sound go_string"
  by (auto simp: assertion_sound_def go_string_def split: any.splits)
lemma go_any_sound: "assertion_sound go_any"
  by (auto simp: assertion_sound_def go_any_def split: any.splits)

lemma go_bool_non_interface: "non_interface go_bool"
  by (simp add: non_interface_def go_bool_def)
lemma go_int_non_interface: "non_interface go_int"
  by (simp add: non_interface_def go_int_def)
lemma go_string_non_interface: "non_interface go_string"
  by (simp add: non_interface_def go_string_def)
lemma go_any_is_interface: "\<not> non_interface go_any"
  by (auto simp: non_interface_def go_any_def intro: exI[of _ VNil])

lemma WithValue_returns: "WithValue V k s v = Inr (valueCtx s (VOpaque (ident k)) (box V v))"
  by (simp add: WithValue_def context_WithValue_def)

lemma TryGet_newest: "TryGet V k (valueCtx s (VOpaque (ident k)) x) = type_assert V x"
  by (simp add: TryGet_def)

lemma TryGet_other: "t \<noteq> VOpaque (ident k) \<Longrightarrow> TryGet V k (valueCtx s t x) = TryGet V k s"
  by (simp add: TryGet_def)

lemma type_assert_box: "non_interface V \<Longrightarrow> type_assert V (box V v) = (v, True)"
  by (simp add: non_interface_def type_assert_def)

lemma Inspect_fields:
  "Key (Inspect V k s) = k" "Value (Inspect V k s) = fst (TryGet V k s)"
  "Ok (Inspect V k s) = snd (TryGet V k s)"
  by (simp_all add: Inspect_def split: prod.splits)

lemma Get_eq: "Get V k s = fst (TryGet V k s)"
  by (simp add: Get_def Inspection_Get_def Inspect_fields)
lemma IsSet_eq: "IsSet V k s = snd (TryGet V k s)"
  by (simp add: IsSet_def Inspection_IsSet_def Inspect_fields)
lemma IsNotSet_eq: "IsNotSet V k s = (\<not> snd (TryGet V k s))"
  by (simp add: IsNotSet_def Inspection_IsNotSet_def Inspect_fields)
lemma GetOrDefault_eq: "GetOrDefault V k s d = (if snd (TryGet V k s) then fst (TryGet V k s) else d)"
  by (simp add: GetOrDefault_def Inspection_GetOrDefault_def Inspect_fields)
lemma MustGet_eq: "MustGet V k s = (if snd (TryGet V k s) then Inr (fst (TryGet V k s))
   else Inl (PanicString (''key '' @ name k @ '' is not set in context'')))"
  by (simp add: MustGet_def Inspection_MustGet_def Inspect_fields key_String_def)

lemma ctx_Value_unbound: "\<not> ctx_binds s t \<Longrightarrow> ctx_Value s t = VNil"
  by (induction s) auto

lemma TryGet_unbound: "assertion_sound V \<Longrightarrow> \<not> ctx_binds s (VOpaque (ident k)) \<Longrightarrow> TryGet V k s = (zero_value V, False)"
  by (simp add: TryGet_def ctx_Value_unbound type_assert_def assertion_sound_def)

text \<open>
  Claim C2 (bind/read round trip distinguishing zero from unset), at the input where the
  code departs from it.  The claim asks that after \<open>WithValue(s, v)\<close>, for every value
  \<open>v\<close> of the value type including its zero value, \<open>TryGet\<close> returns \<open>(v, true)\<close> and
  \<open>IsSet\<close> returns true.  For a key over the interface type \<open>any\<close> the zero value is the
  nil interface; binding it stores a nil interface in the scope, the type assertion in
  \<open>TryGet\<close> fails on it, and the key reads as not set on the new scope, whatever the
  key and the parent scope are.
\<close>

theorem nil_interface_binding_reads_unset:
  "\<exists>s'. WithValue go_any k s VNil = Inr s' \<and> TryGet go_any k s' = (VNil, False)
     \<and> \<not> IsSet go_any k s' \<and> IsNotSet go_any k s'"
  by (simp add: WithValue_returns TryGet_newest IsSet_eq IsNotSet_eq type_assert_def go_any_def)


lemma TryGet_absent: "\<not> snd (TryGet V k s) \<Longrightarrow> TryGet V k s = (zero_value V, False)"
  by (simp add: TryGet_def type_assert_def split: option.splits)

lemma valueCtx_new: "valueCtx s t x \<noteq> s"
  by (induction s) auto

text \<open>
  Claim C3 (type safety against foreign writes).  Let the scope hold, under the token of
  \<open>k\<close>, a value that is not the interface form of any value of \<open>V\<close>.  Then \<open>TryGet\<close>
  returns the zero value of \<open>V\<close> and false, \<open>Get\<close> returns the zero value, \<open>IsSet\<close> is
  false, and \<open>MustGet\<close> panics with the key-not-set message and not with a type
  assertion error.  That no operation returns a value of another type than \<open>V\<close> is the
  typing of the three functions: their results have the type the descriptor is about.
\<close>

theorem foreign_value_reads_absent:
  assumes "assertion_sound V"
    and "\<forall>v. box V v \<noteq> ctx_Value s (VOpaque (ident k))"
  shows "TryGet V k s = (zero_value V, False) \<and> Get V k s = zero_value V
     \<and> \<not> IsSet V k s
     \<and> MustGet V k s = Inl (PanicString (''key '' @ key_String k @ '' is not set in context''))
     \<and> MustGet V k s \<noteq> Inl TypeAssertionError"
proof -
  have "unbox V (ctx_Value s (VOpaque (ident k))) = None"
  proof (cases "unbox V (ctx_Value s (VOpaque (ident k)))")
    case None
    then show ?thesis .
  next
    case (Some v)
    with assms(1) have "box V v = ctx_Value s (VOpaque (ident k))"
      by (simp add: assertion_sound_def)
    with assms(2) show ?thesis by blast
  qed
  then have "TryGet V k s = (zero_value V, False)"
    by (simp add: TryGet_def type_assert_def)
  then show ?thesis
    by (simp add: Get_eq IsSet_eq MustGet_eq key_String_def)
qed

theorem foreign_value_reads_absent_witness:
  "assertion_sound go_int
   \<and> (\<forall>v. box go_int v \<noteq> ctx_Value (valueCtx Background (VOpaque 4096) (VString ''on'')) (VOpaque (ident \<lparr>name = ''limit'', ident = 4096\<rparr>)))
   \<and> TryGet go_int \<lparr>name = ''limit'', ident = 4096\<rparr> (valueCtx Background (VOpaque 4096) (VString ''on'')) = (0, False)
   \<and> MustGet go_int \<lparr>name = ''limit'', ident = 4096\<rparr> (valueCtx Background (VOpaque 4096) (VString ''on''))
       = Inl (PanicString ''key limit is not set in context'')"
proof -
  have a: "assertion_sound go_int" by (rule go_int_sound)
  have b: "\<forall>v. box go_int v \<noteq> ctx_Value (valueCtx Background (VOpaque 4096) (VString ''on'')) (VOpaque (ident \<lparr>name = ''limit'', ident = 4096\<rparr>))"
    by (simp add: go_int_def)
  show ?thesis
    using a b foreign_value_reads_absent [OF a b] by (simp add: go_int_def key_String_def)
qed

text \<open>
  Claim C4 (scope immutability and frame condition of bind).  \<open>WithValue\<close> returns a
  scope different from \<open>s\<close>.  A scope is an immutable value and \<open>WithValue\<close> has no
  result besides the new scope, so whatever is read through the handle \<open>s\<close> after the
  call is what was read before it.  The new scope answers every lookup of a token other
  than that of \<open>k\<close> as \<open>s\<close> does, and so every read operation of an accessor with
  another token gives the same result on both scopes.
\<close>

theorem bind_frame_condition:
  "\<exists>s'. WithValue V k s v = Inr s' \<and> s' \<noteq> s
     \<and> (\<forall>t. t \<noteq> VOpaque (ident k) \<longrightarrow> ctx_Value s' t = ctx_Value s t)
     \<and> (\<forall>k2. ident k2 \<noteq> ident k \<longrightarrow>
           TryGet W k2 s' = TryGet W k2 s \<and> Get W k2 s' = Get W k2 s
           \<and> IsSet W k2 s' = IsSet W k2 s \<and> IsNotSet W k2 s' = IsNotSet W k2 s
           \<and> MustGet W k2 s' = MustGet W k2 s
           \<and> (\<forall>d. GetOrDefault W k2 s' d = GetOrDefault W k2 s d))"
  by (simp add: WithValue_returns valueCtx_new TryGet_other Get_eq IsSet_eq IsNotSet_eq
      MustGet_eq GetOrDefault_eq)

theorem bind_frame_condition_witness:
  "\<exists>s'. WithValue go_int \<lparr>name = ''a'', ident = 4096\<rparr> (valueCtx Background (VOpaque 4097) (VBool True)) 5 = Inr s'
     \<and> s' \<noteq> valueCtx Background (VOpaque 4097) (VBool True)
     \<and> ctx_Value s' (VOpaque 4097) = VBool True
     \<and> TryGet go_bool \<lparr>name = ''b'', ident = 4097\<rparr> s' = (True, True)"
  using bind_frame_condition [of go_int "\<lparr>name = ''a'', ident = 4096\<rparr>"
      "valueCtx Background (VOpaque 4097) (VBool True)" 5 go_bool]
  by (auto simp: TryGet_def type_assert_def go_bool_def)


lemma Inspection_String_Inspect:
  "Inspection_String V (Inspect V k s) =
     (if IsSet V k s then key_String k @ '': '' @ format_v V (Get V k s)
      else key_String k @ '': <not set>'')"
  by (simp add: Inspection_String_def Inspect_fields IsSet_eq Get_eq)

lemma bool_views:
  "Enabled b s = fst (TryGet go_bool (key b) s)"
  "Disabled b s = (\<not> fst (TryGet go_bool (key b) s))"
  "ExplicitlyDisabled b s = (snd (TryGet go_bool (key b) s) \<and> \<not> fst (TryGet go_bool (key b) s))"
  by (simp_all add: Enabled_def Disabled_def ExplicitlyDisabled_def InspectBool_def
      BoolInspection_Enabled_def BoolInspection_Disabled_def
      BoolInspection_ExplicitlyDisabled_def Inspect_fields)

text \<open>
  Claim C5 (three-state boolean).  On a scope that does not bind the flag, \<open>Enabled\<close> is
  false, \<open>Disabled\<close> is true and \<open>ExplicitlyDisabled\<close> is false.  On the scope that
  \<open>WithDisabled\<close> returns they are false, true and true; on the scope that \<open>WithEnabled\<close>
  returns they are true, false and false.  On every scope \<open>ExplicitlyDisabled\<close> holds
  exactly when the flag is present with the value false.
\<close>

theorem three_state_boolean:
  "(\<not> ctx_binds s (VOpaque (ident (key b))) \<longrightarrow>
       \<not> Enabled b s \<and> Disabled b s \<and> \<not> ExplicitlyDisabled b s)
   \<and> (\<exists>s'. WithDisabled b s = Inr s' \<and> \<not> Enabled b s' \<and> Disabled b s' \<and> ExplicitlyDisabled b s')
   \<and> (\<exists>s'. WithEnabled b s = Inr s' \<and> Enabled b s' \<and> \<not> Disabled b s' \<and> \<not> ExplicitlyDisabled b s')
   \<and> (ExplicitlyDisabled b s \<longleftrightarrow> TryGet go_bool (key b) s = (False, True))"
proof -
  have fresh: "\<not> ctx_binds s (VOpaque (ident (key b))) \<longrightarrow>
       \<not> Enabled b s \<and> Disabled b s \<and> \<not> ExplicitlyDisabled b s"
    by (simp add: bool_views TryGet_unbound [OF go_bool_sound]) (simp add: go_bool_def)
  have off: "\<exists>s'. WithDisabled b s = Inr s' \<and> \<not> Enabled b s' \<and> Disabled b s' \<and> ExplicitlyDisabled b s'"
    by (simp add: WithDisabled_def WithValue_returns bool_views TryGet_newest
        type_assert_box [OF go_bool_non_interface])
  have on: "\<exists>s'. WithEnabled b s = Inr s' \<and> Enabled b s' \<and> \<not> Disabled b s' \<and> \<not> ExplicitlyDisabled b s'"
    by (simp add: WithEnabled_def WithValue_returns bool_views TryGet_newest
        type_assert_box [OF go_bool_non_interface])
  have gen: "ExplicitlyDisabled b s \<longleftrightarrow> TryGet go_bool (key b) s = (False, True)"
    by (cases "TryGet go_bool (key b) s") (auto simp: bool_views)
  from fresh off on gen show ?thesis by blast
qed

theorem three_state_boolean_witness:
  "\<not> ctx_binds Background (VOpaque (ident (key \<lparr>key = \<lparr>name = ''flag'', ident = 4096\<rparr>\<rparr>)))
   \<and> \<not> Enabled \<lparr>key = \<lparr>name = ''flag'', ident = 4096\<rparr>\<rparr> Background
   \<and> Disabled \<lparr>key = \<lparr>name = ''flag'', ident = 4096\<rparr>\<rparr> Background
   \<and> \<not> ExplicitlyDisabled \<lparr>key = \<lparr>name = ''flag'', ident = 4096\<rparr>\<rparr> Background"
  using three_state_boolean [of Background "\<lparr>key = \<lparr>name = ''flag'', ident = 4096\<rparr>\<rparr>"]
  by simp

text \<open>
  Claim C6 (\<open>MustGet\<close> is the only failing operation).  On an inspection and on a key,
  \<open>MustGet\<close> returns the value when the presence flag is true, and that value is the one
  the scope stores under the token; when the flag is false it panics with the message
  \<open>key <name> is not set in context\<close>, which contains the display name.  \<open>WithValue\<close>
  always returns a scope.  \<open>Get\<close>, \<open>TryGet\<close>, \<open>GetOrDefault\<close> and \<open>IsSet\<close> have no panic
  in the source; they are functions without an error result, and \<open>Get\<close>, \<open>IsSet\<close> and
  \<open>GetOrDefault\<close> are determined by the pair that \<open>TryGet\<close> returns.
\<close>

theorem MustGet_only_failure:
  "Inspection_MustGet i =
     (if Ok i then Inr (Value i)
      else Inl (PanicString (''key '' @ key_String (Key i) @ '' is not set in context'')))
   \<and> MustGet V k s =
     (if IsSet V k s then Inr (Get V k s)
      else Inl (PanicString (''key '' @ key_String k @ '' is not set in context'')))
   \<and> (assertion_sound V \<longrightarrow> IsSet V k s \<longrightarrow>
        box V (Get V k s) = ctx_Value s (VOpaque (ident k)))
   \<and> (\<exists>s'. WithValue V k s v = Inr s')
   \<and> Get V k s = fst (TryGet V k s)
   \<and> IsSet V k s = snd (TryGet V k s)
   \<and> GetOrDefault V k s d = (if IsSet V k s then Get V k s else d)"
proof -
  have stored: "assertion_sound V \<longrightarrow> IsSet V k s \<longrightarrow>
        box V (Get V k s) = ctx_Value s (VOpaque (ident k))"
    by (auto simp: IsSet_eq Get_eq TryGet_def type_assert_def assertion_sound_def
        split: option.splits)
  show ?thesis
    using stored
    by (simp add: Inspection_MustGet_def MustGet_eq IsSet_eq Get_eq GetOrDefault_eq
        WithValue_returns key_String_def)
qed

lemma box_go_string: "box go_string = VString"
  by (simp add: go_string_def)

theorem MustGet_only_failure_witness:
  "assertion_sound go_string
   \<and> IsSet go_string \<lparr>name = ''region'', ident = 4096\<rparr> (valueCtx Background (VOpaque 4096) (VString ''eu''))
   \<and> MustGet go_string \<lparr>name = ''region'', ident = 4096\<rparr> (valueCtx Background (VOpaque 4096) (VString ''eu'')) = Inr ''eu''
   \<and> MustGet go_string \<lparr>name = ''region'', ident = 4096\<rparr> Background
       = Inl (PanicString ''key region is not set in context'')"
proof -
  let ?k = "\<lparr>name = ''region'', ident = 4096\<rparr>"
  let ?s = "valueCtx Background (VOpaque 4096) (VString ''eu'')"
  note bound = MustGet_only_failure [where V = go_string and k = ?k and s = ?s
        and i = "Inspect go_string ?k ?s" and v = "[]" and d = "[]"]
  note unbound = MustGet_only_failure [where V = go_string and k = ?k and s = Background
        and i = "Inspect go_string ?k Background" and v = "[]" and d = "[]"]
  have a: "assertion_sound go_string" by (rule go_string_sound)
  have b: "IsSet go_string ?k ?s"
    by (simp add: IsSet_eq TryGet_def type_assert_def go_string_def)
  have "box go_string (Get go_string ?k ?s) = ctx_Value ?s (VOpaque (ident ?k))"
    using a b bound [THEN conjunct2, THEN conjunct2, THEN conjunct1] by blast
  then have c: "Get go_string ?k ?s = ''eu''"
    by (simp add: box_go_string)
  have d: "\<not> IsSet go_string ?k Background"
    by (simp add: IsSet_eq TryGet_def type_assert_def go_string_def)
  have e: "MustGet go_string ?k ?s = Inr ''eu''"
    using b c bound [THEN conjunct2, THEN conjunct1] by simp
  have f: "MustGet go_string ?k Background = Inl (PanicString ''key region is not set in context'')"
    using d unbound [THEN conjunct2, THEN conjunct1] by (simp add: key_String_def)
  from a b e f show ?thesis by blast
qed

text \<open>
  Claim C7 (inspection freeze).  The snapshot \<open>Inspect(s)\<close> holds the key, the value and
  the presence read from \<open>s\<close>, and its operations \<open>Get\<close>, \<open>TryGet\<close>, \<open>IsSet\<close> and
  \<open>String\<close> take no scope: they return what was read from \<open>s\<close>.  A later
  \<open>WithValue(s, other)\<close> yields a scope \<open>s2\<close> whose own snapshot reads \<open>other\<close>; the
  snapshot of \<open>s\<close> is a value and stays what it was.
\<close>

theorem inspection_freeze:
  "\<exists>s2. WithValue V k s other = Inr s2
     \<and> Key (Inspect V k s) = k
     \<and> Value (Inspect V k s) = Get V k s
     \<and> Ok (Inspect V k s) = IsSet V k s
     \<and> Inspection_TryGet (Inspect V k s) = TryGet V k s
     \<and> Inspection_Get (Inspect V k s) = Get V k s
     \<and> Inspection_IsSet (Inspect V k s) = IsSet V k s
     \<and> Inspection_String V (Inspect V k s) =
         (if IsSet V k s then key_String k @ '': '' @ format_v V (Get V k s)
          else key_String k @ '': <not set>'')
     \<and> Inspection_TryGet (Inspect V k s2) = type_assert V (box V other)"
  by (simp add: WithValue_returns Inspect_fields Inspection_TryGet_def Inspection_Get_def
      Inspection_IsSet_def Inspection_String_Inspect Get_eq IsSet_eq TryGet_newest)

theorem inspection_freeze_witness:
  "\<exists>s2. WithValue go_int \<lparr>name = ''limit'', ident = 4096\<rparr> Background 5 = Inr s2
     \<and> Inspection_TryGet (Inspect go_int \<lparr>name = ''limit'', ident = 4096\<rparr> Background) = (0, False)
     \<and> Inspection_String go_int (Inspect go_int \<lparr>name = ''limit'', ident = 4096\<rparr> Background) = ''limit: <not set>''
     \<and> Inspection_TryGet (Inspect go_int \<lparr>name = ''limit'', ident = 4096\<rparr> s2) = (5, True)"
  using inspection_freeze [of go_int "\<lparr>name = ''limit'', ident = 4096\<rparr>" Background 5]
  by (auto simp: IsSet_eq TryGet_def type_assert_def go_int_def key_String_def)

text \<open>
  Claim C9 (textual representation).  The rendering of a lookup, by \<open>Inspection.String\<close>,
  by \<open>BoolInspection.String\<close> and by \<open>DebugValue\<close>, is the display name, a colon and a
  space, followed by the value as \<open>%v\<close> prints it when the key is present and by
  \<open><not set>\<close> when it is absent.
\<close>

theorem rendering_format:
  "Inspection_String V (Inspect V k s) =
     (if IsSet V k s then key_String k @ '': '' @ format_v V (Get V k s)
      else key_String k @ '': <not set>'')
   \<and> DebugValue V k s =
     (if IsSet V k s then key_String k @ '': '' @ format_v V (Get V k s)
      else key_String k @ '': <not set>'')
   \<and> BoolInspection_String (InspectBool b s) =
     (if IsSet go_bool (key b) s
      then key_String (key b) @ '': '' @ fmt_bool (Get go_bool (key b) s)
      else key_String (key b) @ '': <not set>'')"
  by (simp add: Inspection_String_Inspect BoolInspection_String_def InspectBool_def)
     (simp add: DebugValue_def IsSet_eq Get_eq go_bool_def Let_def case_prod_beta)

theorem rendering_format_witness:
  "Inspection_String go_int (Inspect go_int \<lparr>name = ''max-items'', ident = 4096\<rparr>
       (valueCtx Background (VOpaque 4096) (VInt 100))) = ''max-items: 100''
   \<and> DebugValue go_int \<lparr>name = ''max-items'', ident = 4096\<rparr> Background = ''max-items: <not set>''"
  using rendering_format [of go_int "\<lparr>name = ''max-items'', ident = 4096\<rparr>"
        "valueCtx Background (VOpaque 4096) (VInt 100)"]
      rendering_format [of go_int "\<lparr>name = ''max-items'', ident = 4096\<rparr>" Background]
  by (simp add: IsSet_eq Get_eq TryGet_def type_assert_def go_int_def key_String_def
      fmt_d_def digits10.simps)

end
